theory Spec2Isabelle
  imports Complex_Main "HOL-Library.Multiset"
begin

section \<open>Calendar days and the date-fns operations used by WeatherRecordsCard\<close>

text \<open>
  The component works on JavaScript \<open>Date\<close> values that stand for calendar days
  (\<open>startOfToday()\<close>, the value of a date input, the \<open>time\<close> entries of a provider
  response).  A day is modelled by its number, counted from 1970-01-01 (day 0), so
  2024-01-01 is day 19723; the time of day and the time zone of a \<open>Date\<close> are not
  modelled.  The date-fns functions the component imports act on day numbers as follows;
  \<open>today\<close> is the value of \<open>startOfToday()\<close>, passed explicitly.
\<close>

type_synonym date = int

definition subDays :: "date \<Rightarrow> int \<Rightarrow> date" where
  "subDays d n = d - n"

definition addDays :: "date \<Rightarrow> int \<Rightarrow> date" where
  "addDays d n = d + n"

definition differenceInDays :: "date \<Rightarrow> date \<Rightarrow> int" where
  "differenceInDays later earlier = later - earlier"

definition isAfter :: "date \<Rightarrow> date \<Rightarrow> bool" where
  "isAfter d other = (other < d)"

definition isBefore :: "date \<Rightarrow> date \<Rightarrow> bool" where
  "isBefore d other = (d < other)"

section \<open>Data model\<close>

record Coordinates =
  lat :: rat
  lon :: rat

record Location =
  name :: string
  coordinates :: Coordinates

record DateRange =
  startDate :: date
  endDate :: date

text \<open>
  One entry of \<open>temperatures\<close>.  The interface declares \<open>temperature\<close> a number and
  \<open>humidity\<close>, \<open>windSpeed\<close> optional; at run time each of the three holds whatever the
  provider's array held at that index, so all three may be missing (\<open>None\<close> stands for
  \<open>undefined\<close> and \<open>null\<close>).
\<close>

record Observation =
  date :: date
  temperature :: "rat option"
  description :: string
  humidity :: "rat option"
  windSpeed :: "rat option"

record WeatherRecord =
  rec_id :: "string option"
  location :: Location
  dateRange :: DateRange
  temperatures :: "Observation list"
  createdAt :: date

text \<open>
  The draft held by the form is a \<open>Partial<WeatherRecord>\<close>: every field may be absent.
  Its fields have the names of \<open>WeatherRecord\<close>'s; from here on the unqualified names
  refer to the draft and a stored record's fields are written \<open>WeatherRecord.location\<close> etc.
\<close>

record FormData =
  rec_id :: "string option"
  location :: "Location option"
  dateRange :: "DateRange option"
  temperatures :: "Observation list option"
  createdAt :: "date option"

record LocationSuggestion =
  place_id :: nat
  display_name :: string
  lat_text :: string
  lon_text :: string

text \<open>
  The \<open>daily\<close> object of a provider response: parallel arrays indexed by day offset.
  An array entry may be \<open>null\<close>, and an index beyond an array's end reads \<open>undefined\<close>.
\<close>

record Daily =
  time :: "date list"
  temperature_2m_max :: "rat option list"
  temperature_2m_min :: "rat option list"
  temperature_2m_mean :: "rat option list"
  relative_humidity_2m_mean :: "rat option list"
  wind_speed_10m_mean :: "rat option list"

definition elemAt :: "'a option list \<Rightarrow> nat \<Rightarrow> 'a option" where
  "elemAt xs i = (if i < length xs then xs ! i else None)"

section \<open>Effects: toasts, network requests, downloads\<close>

text \<open>A toast: title, description, and whether its variant is "destructive".\<close>

datatype Toast = Toast string string bool

text \<open>
  The HTTP requests the component sends.  The two provider requests carry latitude,
  longitude, \<open>start_date\<close> and \<open>end_date\<close>; the dates are kept as days (the request
  sends their \<open>yyyy-MM-dd\<close> rendering).  A response either fails (the awaited promise
  rejects, or the body has not the expected shape and reading it throws) or carries data.
\<close>

datatype Request =
    ArchiveGet rat rat date date
  | ForecastGet rat rat date date
  | RecordPut string FormData
  | RecordPost FormData

datatype Response = Failed | WeatherData Daily | RecordData WeatherRecord

type_synonym Network = "Request \<Rightarrow> Response"

text \<open>
  The exported JSON document before \<open>JSON.stringify\<close>: dates are strings, \<open>None\<close> is
  \<open>null\<close>.
\<close>

record ExportedObservation =
  x_date :: string
  x_temperature :: rat
  x_description :: string
  x_humidity :: "rat option"
  x_windSpeed :: "rat option"

record ExportedRecord =
  x_location :: Location
  x_dateRange :: "string \<times> string"
  x_temperatures :: "ExportedObservation list"
  x_createdAt :: string

datatype Content = JSONDocument ExportedRecord | CSVText string

text \<open>A call of \<open>downloadFile(content, fileName, contentType)\<close>.\<close>

datatype Download = Download Content string string

section \<open>Component state\<close>

text \<open>
  The React state the modelled handlers read or write, and the three effect logs
  (toasts shown, requests sent, files handed to the browser), each in order of occurrence.
\<close>

record State =
  records :: "WeatherRecord list"
  selectedRecord :: "WeatherRecord option"
  locationQuery :: string
  locationSuggestions :: "LocationSuggestion list"
  isLoadingWeather :: bool
  selectedRange :: nat
  isCustomRange :: bool
  formData :: FormData
  toasts :: "Toast list"
  requests :: "Request list"
  downloads :: "Download list"

section \<open>Library functions of the JavaScript runtime\<close>

text \<open>
  Functions of the language runtime and of date-fns that the component calls on numbers
  and strings.  They are parameters of the model: \<open>dateFormat d\<close> is
  \<open>format(d, "yyyy-MM-dd")\<close>, \<open>toFixed1 x\<close> is \<open>x.toFixed(1)\<close>, \<open>toStr x\<close> is the text a
  template literal inserts for \<open>x\<close>, \<open>toNumber s\<close> is \<open>Number(s)\<close>, \<open>parseFloat s\<close> is
  \<open>Number.parseFloat(s)\<close> and \<open>toUpperCase s\<close> is \<open>s.toUpperCase()\<close>.
\<close>

record Runtime =
  dateFormat :: "date \<Rightarrow> string"
  toFixed1 :: "rat \<Rightarrow> string"
  toStr :: "rat option \<Rightarrow> string"
  toNumber :: "string \<Rightarrow> rat"
  parseFloat :: "string \<Rightarrow> rat"
  toUpperCase :: "string \<Rightarrow> string"

section \<open>Date-range validation (the guards of handleDateChange)\<close>

text \<open>
  \<open>handleDateChange\<close> rejects a candidate range with one of three toasts, tested in
  this order.  The three outcomes carry the names the specification gives them.
\<close>

datatype ValidationError = FutureDate | RangeTooLong | InvertedRange

definition validate :: "date \<Rightarrow> date \<Rightarrow> date \<Rightarrow> ValidationError + DateRange" where
  "validate today newStartDate newEndDate =
     (if isAfter newStartDate today \<or> isAfter newEndDate today then Inl FutureDate
      else if differenceInDays newEndDate newStartDate > 30 then Inl RangeTooLong
      else if isBefore newEndDate newStartDate then Inl InvertedRange
      else Inr \<lparr>startDate = newStartDate, endDate = newEndDate\<rparr>)"

section \<open>Splitting a range between the archive and the forecast provider\<close>

text \<open>
  The first lines of \<open>fetchHistoricalWeather\<close>: the cutoff is four days before today,
  the archive request ends at the earlier of the range's end and the cutoff, and the
  forecast provider is needed when the range ends after the cutoff.
\<close>

definition cutoffDate :: "date \<Rightarrow> date" where
  "cutoffDate today = subDays today 4"

definition archiveEndDate :: "date \<Rightarrow> date \<Rightarrow> date" where
  "archiveEndDate today endDate' =
     (if isBefore endDate' (cutoffDate today) then endDate' else cutoffDate today)"

definition needsRecentData :: "date \<Rightarrow> date \<Rightarrow> bool" where
  "needsRecentData today endDate' = isAfter endDate' (cutoffDate today)"

text \<open>
  The \<open>start_date\<close> and \<open>end_date\<close> of the archive request, which is always sent, and
  of the forecast request, which is sent only when \<open>needsRecentData\<close> holds.
\<close>

definition archivePart :: "date \<Rightarrow> date \<Rightarrow> date \<Rightarrow> date \<times> date" where
  "archivePart today startDate' endDate' = (startDate', archiveEndDate today endDate')"

definition forecastPart :: "date \<Rightarrow> date \<Rightarrow> (date \<times> date) option" where
  "forecastPart today endDate' =
     (if needsRecentData today endDate' then Some (addDays (cutoffDate today) 1, endDate')
      else None)"

text \<open>The calendar days a pair of bounds covers; an inverted pair covers none.\<close>

definition daysOf :: "date \<times> date \<Rightarrow> date set" where
  "daysOf p = {fst p .. snd p}"

definition daysOfOption :: "(date \<times> date) option \<Rightarrow> date set" where
  "daysOfOption p = (case p of None \<Rightarrow> {} | Some q \<Rightarrow> daysOf q)"

section \<open>Normalising a provider response\<close>

definition degree :: char where
  "degree = CHR 0xB0"

text \<open>The object pushed for day offset \<open>i\<close> by the loops of \<open>fetchHistoricalWeather\<close>.\<close>

definition observationAt :: "Runtime \<Rightarrow> Daily \<Rightarrow> nat \<Rightarrow> Observation" where
  "observationAt rt daily i =
     \<lparr>date = time daily ! i,
      temperature = elemAt (temperature_2m_mean daily) i,
      description =
        ''High: '' @ toStr rt (elemAt (temperature_2m_max daily) i) @ [degree] @ ''C, Low: ''
          @ toStr rt (elemAt (temperature_2m_min daily) i) @ [degree] @ ''C'',
      humidity = elemAt (relative_humidity_2m_mean daily) i,
      windSpeed = elemAt (wind_speed_10m_mean daily) i\<rparr>"

definition observationsOf :: "Runtime \<Rightarrow> Daily \<Rightarrow> Observation list" where
  "observationsOf rt daily = map (observationAt rt daily) [0 ..< length (time daily)]"

section \<open>fetchHistoricalWeather\<close>

text \<open>
  \<open>fetchHistoricalWeather\<close> is an async function with two suspension points: it sends the
  archive request and waits; on the answer it normalises the archive days and, when
  recent data is needed, sends the forecast request and waits again; on that answer it
  appends the forecast days, sorts by date and stores the result in the draft.  Any
  failure on the way lands in the \<open>catch\<close> block (a toast, the draft untouched).  The
  model has one function per stretch of code between suspension points; what a suspended
  call keeps in its closure is a value of \<open>Suspended\<close>.
\<close>

datatype Suspended =
    AwaitingArchive rat rat date date
  | AwaitingForecast "Observation list"

datatype Progress = Finished State | Waiting State Request "Observation list"

definition fetch_begin ::
  "date \<Rightarrow> rat \<Rightarrow> rat \<Rightarrow> date \<Rightarrow> date \<Rightarrow> State \<Rightarrow> State \<times> Request \<times> Suspended" where
  "fetch_begin today lat' lon' startDate' endDate' s =
     (let req = ArchiveGet lat' lon' (fst (archivePart today startDate' endDate'))
                  (snd (archivePart today startDate' endDate'))
      in (s\<lparr>isLoadingWeather := True, requests := requests s @ [req]\<rparr>, req,
          AwaitingArchive lat' lon' today endDate'))"

definition fetch_failed :: "State \<Rightarrow> State" where
  "fetch_failed s =
     s\<lparr>toasts := toasts s @ [Toast ''Error'' ''Failed to fetch weather data'' True],
       isLoadingWeather := False\<rparr>"

definition fetch_succeeded :: "Observation list \<Rightarrow> State \<Rightarrow> State" where
  "fetch_succeeded temps s =
     s\<lparr>formData := (formData s)\<lparr>temperatures := Some (sort_key date temps)\<rparr>,
       isLoadingWeather := False\<rparr>"

definition on_archive_response ::
  "Runtime \<Rightarrow> rat \<Rightarrow> rat \<Rightarrow> date \<Rightarrow> date \<Rightarrow> Response \<Rightarrow> State \<Rightarrow> Progress" where
  "on_archive_response rt lat' lon' today endDate' resp s =
     (case resp of
        WeatherData daily \<Rightarrow>
          (let temps = observationsOf rt daily in
           case forecastPart today endDate' of
             Some (from, to) \<Rightarrow>
               (let req = ForecastGet lat' lon' from to
                in Waiting (s\<lparr>requests := requests s @ [req]\<rparr>) req temps)
           | None \<Rightarrow> Finished (fetch_succeeded temps s))
      | _ \<Rightarrow> Finished (fetch_failed s))"

definition on_forecast_response ::
  "Runtime \<Rightarrow> Observation list \<Rightarrow> Response \<Rightarrow> State \<Rightarrow> State" where
  "on_forecast_response rt temps resp s =
     (case resp of
        WeatherData recentDaily \<Rightarrow> fetch_succeeded (temps @ observationsOf rt recentDaily) s
      | _ \<Rightarrow> fetch_failed s)"

text \<open>
  A call that runs to completion with nothing else in between: each request is answered
  by the network \<open>net\<close> at once.
\<close>

definition fetch_await :: "Runtime \<Rightarrow> Network \<Rightarrow> Request \<Rightarrow> Suspended \<Rightarrow> State \<Rightarrow> State" where
  "fetch_await rt net req call s =
     (case call of
        AwaitingArchive lat' lon' today endDate' \<Rightarrow>
          (case on_archive_response rt lat' lon' today endDate' (net req) s of
             Finished s' \<Rightarrow> s'
           | Waiting s' req' temps \<Rightarrow> on_forecast_response rt temps (net req') s')
      | AwaitingForecast temps \<Rightarrow> on_forecast_response rt temps (net req) s)"

definition fetchHistoricalWeather ::
  "Runtime \<Rightarrow> Network \<Rightarrow> date \<Rightarrow> rat \<Rightarrow> rat \<Rightarrow> date \<Rightarrow> date \<Rightarrow> State \<Rightarrow> State" where
  "fetchHistoricalWeather rt net today lat' lon' startDate' endDate' s =
     (case fetch_begin today lat' lon' startDate' endDate' s of
        (s', req, call) \<Rightarrow> fetch_await rt net req call s')"

section \<open>handleDateChange, handleRangeChange, handleLocationSelect\<close>

datatype ChangeType = ChangeStart | ChangeEnd | ChangeBoth

definition validationToast :: "ValidationError \<Rightarrow> Toast" where
  "validationToast e =
     (case e of
        FutureDate \<Rightarrow> Toast ''Invalid Date'' ''Cannot select future dates'' True
      | RangeTooLong \<Rightarrow> Toast ''Invalid Date Range'' ''Date range cannot exceed 30 days'' True
      | InvertedRange \<Rightarrow> Toast ''Invalid Date Range'' ''End date must be after start date'' True)"

definition newStartDate :: "ChangeType \<Rightarrow> date option \<Rightarrow> FormData \<Rightarrow> date option" where
  "newStartDate type startDate' fd =
     (if type = ChangeEnd then map_option startDate (dateRange fd) else startDate')"

definition newEndDate :: "ChangeType \<Rightarrow> date option \<Rightarrow> FormData \<Rightarrow> date option" where
  "newEndDate type endDate' fd =
     (if type = ChangeStart then map_option endDate (dateRange fd) else endDate')"

text \<open>
  \<open>handleDateChange\<close> up to its first suspension point: the candidate is built, the three
  guards run, the draft's range is replaced, and the fetch is started when the draft has
  a location.  The result says whether a call is now waiting for the archive.
\<close>

definition handleDateChange_begin ::
  "date \<Rightarrow> ChangeType \<Rightarrow> date option \<Rightarrow> date option \<Rightarrow> State
     \<Rightarrow> State \<times> (Request \<times> Suspended) option" where
  "handleDateChange_begin today type startDate' endDate' s =
     (case (newStartDate type startDate' (formData s), newEndDate type endDate' (formData s)) of
        (Some a, Some b) \<Rightarrow>
          (case validate today a b of
             Inl e \<Rightarrow> (s\<lparr>toasts := toasts s @ [validationToast e]\<rparr>, None)
           | Inr r \<Rightarrow>
               (let s1 = s\<lparr>formData := (formData s)\<lparr>dateRange := Some r\<rparr>\<rparr> in
                case location (formData s) of
                  None \<Rightarrow> (s1, None)
                | Some loc \<Rightarrow>
                    (case fetch_begin today (lat (coordinates loc)) (lon (coordinates loc)) a b s1 of
                       (s2, req, call) \<Rightarrow> (s2, Some (req, call)))))
      | _ \<Rightarrow> (s, None))"

definition handleDateChange ::
  "Runtime \<Rightarrow> Network \<Rightarrow> date \<Rightarrow> ChangeType \<Rightarrow> date option \<Rightarrow> date option \<Rightarrow> State \<Rightarrow> State" where
  "handleDateChange rt net today type startDate' endDate' s =
     (case handleDateChange_begin today type startDate' endDate' s of
        (s', None) \<Rightarrow> s'
      | (s', Some (req, call)) \<Rightarrow> fetch_await rt net req call s')"

text \<open>
  A click on one of the range buttons; \<open>days\<close> is the \<open>days\<close> field of the option, one of
  \<open>DATE_RANGE_OPTIONS\<close>.
\<close>

definition DATE_RANGE_OPTIONS :: "(string \<times> nat) list" where
  "DATE_RANGE_OPTIONS =
     [(''Last 7 days'', 7), (''Last 14 days'', 14), (''Last 30 days'', 30), (''Custom Range'', 0)]"

definition handleRangeChange_begin ::
  "date \<Rightarrow> nat \<Rightarrow> State \<Rightarrow> State \<times> (Request \<times> Suspended) option" where
  "handleRangeChange_begin today days s =
     (let s1 = s\<lparr>selectedRange := days, isCustomRange := (days = 0)\<rparr> in
      if days > 0
      then handleDateChange_begin today ChangeBoth
             (Some (subDays today (int days - 1))) (Some today) s1
      else (s1, None))"

definition handleLocationSelect_begin ::
  "Runtime \<Rightarrow> date \<Rightarrow> LocationSuggestion \<Rightarrow> State \<Rightarrow> State \<times> Request \<times> Suspended" where
  "handleLocationSelect_begin rt today suggestion s =
     (let r = (case dateRange (formData s) of
                 Some r \<Rightarrow> r
               | None \<Rightarrow> \<lparr>startDate = subDays today 7, endDate = today\<rparr>);
          loc = \<lparr>name = display_name suggestion,
                 coordinates = \<lparr>lat = parseFloat rt (lat_text suggestion),
                                 lon = parseFloat rt (lon_text suggestion)\<rparr>\<rparr>;
          s1 = s\<lparr>formData := (formData s)\<lparr>location := Some loc\<rparr>,
                 locationSuggestions := [],
                 locationQuery := display_name suggestion\<rparr>
      in fetch_begin today (parseFloat rt (lat_text suggestion))
           (parseFloat rt (lon_text suggestion)) (startDate r) (endDate r) s1)"

section \<open>Calls in flight\<close>

text \<open>
  Nothing cancels a call of \<open>fetchHistoricalWeather\<close>, and the range buttons and the
  location suggestions stay enabled while one is waiting, so several calls can be in
  flight and their answers can arrive in any order.  The system state is the component
  state and the suspended calls, numbered in order of their start; an event is a user
  action or the arrival of the answer a given call is waiting for.  The two date inputs
  are rendered only for the custom range and are disabled while \<open>isLoadingWeather\<close> holds;
  the start input calls \<open>handleDateChange("start", d)\<close> and the end input
  \<open>handleDateChange("end", undefined, d)\<close>.
\<close>

record System =
  ui :: State
  inflight :: "Suspended option list"

datatype Event =
    RangeButton nat
  | StartDateInput date
  | EndDateInput date
  | SuggestionClick LocationSuggestion
  | Answer nat Response

definition spawn :: "System \<Rightarrow> State \<times> (Request \<times> Suspended) option \<Rightarrow> System" where
  "spawn sys r =
     (case r of
        (s', None) \<Rightarrow> sys\<lparr>ui := s'\<rparr>
      | (s', Some (req, call)) \<Rightarrow> sys\<lparr>ui := s', inflight := inflight sys @ [Some call]\<rparr>)"

definition answer :: "Runtime \<Rightarrow> nat \<Rightarrow> Response \<Rightarrow> System \<Rightarrow> System" where
  "answer rt k resp sys =
     (if k < length (inflight sys) then
        (case inflight sys ! k of
           None \<Rightarrow> sys
         | Some (AwaitingArchive lat' lon' today endDate') \<Rightarrow>
             (case on_archive_response rt lat' lon' today endDate' resp (ui sys) of
                Finished s' \<Rightarrow> sys\<lparr>ui := s', inflight := (inflight sys)[k := None]\<rparr>
              | Waiting s' req temps \<Rightarrow>
                  sys\<lparr>ui := s', inflight := (inflight sys)[k := Some (AwaitingForecast temps)]\<rparr>)
         | Some (AwaitingForecast temps) \<Rightarrow>
             sys\<lparr>ui := on_forecast_response rt temps resp (ui sys),
                 inflight := (inflight sys)[k := None]\<rparr>)
      else sys)"

definition step :: "Runtime \<Rightarrow> date \<Rightarrow> System \<Rightarrow> Event \<Rightarrow> System" where
  "step rt today sys ev =
     (case ev of
        RangeButton days \<Rightarrow> spawn sys (handleRangeChange_begin today days (ui sys))
      | StartDateInput d \<Rightarrow>
          (if isCustomRange (ui sys) \<and> \<not> isLoadingWeather (ui sys)
           then spawn sys (handleDateChange_begin today ChangeStart (Some d) None (ui sys))
           else sys)
      | EndDateInput d \<Rightarrow>
          (if isCustomRange (ui sys) \<and> \<not> isLoadingWeather (ui sys)
           then spawn sys (handleDateChange_begin today ChangeEnd None (Some d) (ui sys))
           else sys)
      | SuggestionClick suggestion \<Rightarrow>
          (case handleLocationSelect_begin rt today suggestion (ui sys) of
             (s', req, call) \<Rightarrow> spawn sys (s', Some (req, call)))
      | Answer k resp \<Rightarrow> answer rt k resp sys)"

definition run :: "Runtime \<Rightarrow> date \<Rightarrow> System \<Rightarrow> Event list \<Rightarrow> System" where
  "run rt today sys evs = foldl (step rt today) sys evs"

section \<open>saveRecord, resetForm, handleEditRecord\<close>

definition resetForm :: "date \<Rightarrow> State \<Rightarrow> State" where
  "resetForm now s =
     s\<lparr>formData :=
         \<lparr>rec_id = None,
          location = Some \<lparr>name = [], coordinates = \<lparr>lat = 0, lon = 0\<rparr>\<rparr>,
          dateRange = Some \<lparr>startDate = now, endDate = addDays now 5\<rparr>,
          temperatures = None,
          createdAt = None\<rparr>,
       selectedRecord := None,
       locationQuery := []\<rparr>"

definition handleEditRecord :: "WeatherRecord \<Rightarrow> State \<Rightarrow> State" where
  "handleEditRecord record s =
     s\<lparr>selectedRecord := Some record,
       formData :=
         \<lparr>rec_id = WeatherRecord.rec_id record,
          location = Some (WeatherRecord.location record),
          dateRange = Some \<lparr>startDate = startDate (WeatherRecord.dateRange record),
                            endDate = endDate (WeatherRecord.dateRange record)\<rparr>,
          temperatures = Some (WeatherRecord.temperatures record),
          createdAt = Some (WeatherRecord.createdAt record)\<rparr>,
       locationQuery := name (WeatherRecord.location record)\<rparr>"

text \<open>
  The guard of \<open>saveRecord\<close>:
  \<open>!formData.location?.name || !formData.temperatures || formData.temperatures.length === 0\<close>.
\<close>

definition incomplete :: "FormData \<Rightarrow> bool" where
  "incomplete fd =
     ((case location fd of None \<Rightarrow> True | Some loc \<Rightarrow> name loc = [])
      \<or> (case temperatures fd of None \<Rightarrow> True | Some ts \<Rightarrow> ts = []))"

text \<open>
  The id tested by \<open>selectedRecord?._id\<close>: present when a record with a non-empty id is
  selected.
\<close>

definition selectedId :: "State \<Rightarrow> string option" where
  "selectedId s =
     (case selectedRecord s of
        None \<Rightarrow> None
      | Some r \<Rightarrow>
          (case WeatherRecord.rec_id r of
             None \<Rightarrow> None
           | Some i \<Rightarrow> if i = [] then None else Some i))"

definition saveFailed :: "State \<Rightarrow> State" where
  "saveFailed s =
     s\<lparr>toasts := toasts s @ [Toast ''Error'' ''Failed to save weather record'' True]\<rparr>"

definition saveRecord :: "Network \<Rightarrow> date \<Rightarrow> State \<Rightarrow> State" where
  "saveRecord net now s =
     (if incomplete (formData s) then
        s\<lparr>toasts := toasts s @
             [Toast ''Error''
                ''Please select a valid location and ensure weather data is loaded'' True]\<rparr>
      else
        (case selectedId s of
           Some i \<Rightarrow>
             (let req = RecordPut i (formData s);
                  s1 = s\<lparr>requests := requests s @ [req]\<rparr>
              in case net req of
                   RecordData data \<Rightarrow>
                     resetForm now
                       (s1\<lparr>records :=
                             map (\<lambda>record. if WeatherRecord.rec_id record = Some i then data
                                            else record) (records s1),
                           toasts := toasts s1 @
                             [Toast ''Success'' ''Weather record updated successfully'' False]\<rparr>)
                 | _ \<Rightarrow> saveFailed s1)
         | None \<Rightarrow>
             (let req = RecordPost (formData s);
                  s1 = s\<lparr>requests := requests s @ [req]\<rparr>
              in case net req of
                   RecordData data \<Rightarrow>
                     resetForm now
                       (s1\<lparr>records := records s1 @ [data],
                           toasts := toasts s1 @
                             [Toast ''Success'' ''Weather record created successfully'' False]\<rparr>)
                 | _ \<Rightarrow> saveFailed s1)))"

section \<open>Export: escapeCSV, convertToCSV, exportRecord\<close>

definition quote :: char where
  "quote = CHR 0x22"

definition comma :: char where
  "comma = CHR 0x2C"

definition newline :: char where
  "newline = CHR 0x0A"

text \<open>The replacement of every double quote by two, \<^verbatim>\<open>field.replace(/"/g, '""')\<close>.\<close>

definition doubleQuotes :: "string \<Rightarrow> string" where
  "doubleQuotes field = concat (map (\<lambda>c. if c = quote then [quote, quote] else [c]) field)"

definition escapeCSV :: "string \<Rightarrow> string" where
  "escapeCSV field =
     (if field \<noteq> [] \<and> (comma \<in> set field \<or> quote \<in> set field \<or> newline \<in> set field)
      then [quote] @ doubleQuotes field @ [quote]
      else field)"

text \<open>\<^verbatim>\<open>Array.prototype.join\<close> on strings.\<close>

fun join :: "string \<Rightarrow> string list \<Rightarrow> string" where
  "join sep [] = []"
| "join sep [x] = x"
| "join sep (x # y # ys) = x @ sep @ join sep (y # ys)"

text \<open>
  \<^verbatim>\<open>temp.temperature.toFixed(1)\<close> throws when the temperature is missing, which the
  \<open>catch\<close> of \<open>exportRecord\<close> turns into a failure toast; \<open>None\<close> is that throw.
  \<^verbatim>\<open>x?.toFixed(1) || ''\<close> is the empty string for a missing \<open>x\<close>.
\<close>

definition fixedOrEmpty :: "Runtime \<Rightarrow> rat option \<Rightarrow> string" where
  "fixedOrEmpty rt x =
     (case x of
        None \<Rightarrow> []
      | Some v \<Rightarrow> if toFixed1 rt v = [] then [] else toFixed1 rt v)"

definition csvFields :: "Runtime \<Rightarrow> Observation \<Rightarrow> string list option" where
  "csvFields rt temp =
     (case temperature temp of
        None \<Rightarrow> None
      | Some v \<Rightarrow>
          Some [dateFormat rt (date temp), toFixed1 rt v, description temp,
                fixedOrEmpty rt (humidity temp), fixedOrEmpty rt (windSpeed temp)])"

definition csvRow :: "Runtime \<Rightarrow> Observation \<Rightarrow> string option" where
  "csvRow rt temp =
     map_option (\<lambda>fields. join [comma] (map escapeCSV fields)) (csvFields rt temp)"

fun allOrNone :: "'a option list \<Rightarrow> 'a list option" where
  "allOrNone [] = Some []"
| "allOrNone (None # xs) = None"
| "allOrNone (Some x # xs) = map_option ((#) x) (allOrNone xs)"

definition csvMetadata :: "Runtime \<Rightarrow> WeatherRecord \<Rightarrow> string list" where
  "csvMetadata rt record =
     [''# Location: '' @ name (WeatherRecord.location record),
      ''# Latitude: '' @ toStr rt (Some (lat (coordinates (WeatherRecord.location record)))),
      ''# Longitude: '' @ toStr rt (Some (lon (coordinates (WeatherRecord.location record)))),
      ''# Date Range: '' @ dateFormat rt (startDate (WeatherRecord.dateRange record)) @ '' to ''
        @ dateFormat rt (endDate (WeatherRecord.dateRange record)),
      []]"

definition csvHeaders :: "string list" where
  "csvHeaders =
     [''Date,Temperature ('' @ [degree] @ ''C),Description,Humidity (%),Wind Speed (m/s)'']"

definition convertToCSV :: "Runtime \<Rightarrow> WeatherRecord \<Rightarrow> string option" where
  "convertToCSV rt record =
     map_option (\<lambda>rows. join [newline] (csvMetadata rt record @ csvHeaders @ rows))
       (allOrNone (map (csvRow rt) (WeatherRecord.temperatures record)))"

text \<open>
  One element of the \<open>temperatures\<close> array of the JSON document.  A JavaScript number is
  truthy unless it is zero, so \<^verbatim>\<open>temp.humidity ? ... : null\<close> yields \<open>null\<close> for a
  humidity that is missing and for a humidity of 0.
\<close>

definition truthy :: "rat option \<Rightarrow> bool" where
  "truthy x = (case x of None \<Rightarrow> False | Some v \<Rightarrow> v \<noteq> 0)"

definition roundedOrNull :: "Runtime \<Rightarrow> rat option \<Rightarrow> rat option" where
  "roundedOrNull rt x =
     (if truthy x then map_option (\<lambda>v. toNumber rt (toFixed1 rt v)) x else None)"

definition jsonObservation :: "Runtime \<Rightarrow> Observation \<Rightarrow> ExportedObservation option" where
  "jsonObservation rt temp =
     (case temperature temp of
        None \<Rightarrow> None
      | Some v \<Rightarrow>
          Some \<lparr>x_date = dateFormat rt (date temp),
                x_temperature = toNumber rt (toFixed1 rt v),
                x_description = description temp,
                x_humidity = roundedOrNull rt (humidity temp),
                x_windSpeed = roundedOrNull rt (windSpeed temp)\<rparr>)"

definition jsonDocument :: "Runtime \<Rightarrow> WeatherRecord \<Rightarrow> ExportedRecord option" where
  "jsonDocument rt record =
     map_option
       (\<lambda>temps.
          \<lparr>x_location = WeatherRecord.location record,
           x_dateRange = (dateFormat rt (startDate (WeatherRecord.dateRange record)),
                          dateFormat rt (endDate (WeatherRecord.dateRange record))),
           x_temperatures = temps,
           x_createdAt = dateFormat rt (WeatherRecord.createdAt record)\<rparr>)
       (allOrNone (map (jsonObservation rt) (WeatherRecord.temperatures record)))"

definition exportFailed :: "State \<Rightarrow> State" where
  "exportFailed s =
     s\<lparr>toasts := toasts s @ [Toast ''Error'' ''Failed to export record'' True]\<rparr>"

definition exported :: "Runtime \<Rightarrow> string \<Rightarrow> State \<Rightarrow> State" where
  "exported rt exportFormat s =
     s\<lparr>toasts := toasts s @
          [Toast ''Success'' (''Record exported as '' @ toUpperCase rt exportFormat) False]\<rparr>"

definition exportRecord :: "Runtime \<Rightarrow> WeatherRecord \<Rightarrow> string \<Rightarrow> State \<Rightarrow> State" where
  "exportRecord rt record exportFormat s =
     (let fileName = ''weather-record-'' @ dateFormat rt (WeatherRecord.createdAt record) in
      if exportFormat = ''json'' then
        (case jsonDocument rt record of
           None \<Rightarrow> exportFailed s
         | Some doc \<Rightarrow>
             exported rt exportFormat
               (s\<lparr>downloads := downloads s @
                     [Download (JSONDocument doc) (fileName @ ''.json'') ''application/json'']\<rparr>))
      else if exportFormat = ''csv'' then
        (case convertToCSV rt record of
           None \<Rightarrow> exportFailed s
         | Some text \<Rightarrow>
             exported rt exportFormat
               (s\<lparr>downloads := downloads s @
                     [Download (CSVText text) (fileName @ ''.csv'') ''text/csv'']\<rparr>))
      else exported rt exportFormat s)"

section \<open>A concrete runtime\<close>

text \<open>
  An instance of the runtime functions, used to evaluate the model on concrete inputs.
  \<open>jsDateFormat\<close> converts a day number to the proleptic Gregorian date; \<open>jsToFixed1\<close>
  rounds to the nearest tenth, ties away from zero, as \<open>toFixed\<close> does on the exact value
  of a number below \<open>10^21\<close>; \<open>jsToStr\<close> prints a number with a finite decimal expansion
  digit by digit and a missing value as \<open>undefined\<close>; \<open>jsToNumber\<close> reads an optional sign,
  digits, and an optional fraction.
\<close>

definition digitChar :: "nat \<Rightarrow> char" where
  "digitChar n = ''0123456789'' ! (n mod 10)"

fun showNat :: "nat \<Rightarrow> string" where
  "showNat n = (if n < 10 then [digitChar n] else showNat (n div 10) @ [digitChar n])"

declare showNat.simps [simp del]

definition padZero :: "nat \<Rightarrow> string \<Rightarrow> string" where
  "padZero k s = replicate (k - length s) (CHR ''0'') @ s"

definition civil :: "date \<Rightarrow> int \<times> int \<times> int" where
  "civil d =
     (let z = d + 719468;
          era = z div 146097;
          doe = z - era * 146097;
          yoe = (doe - doe div 1460 + doe div 36524 - doe div 146096) div 365;
          doy = doe - (365 * yoe + yoe div 4 - yoe div 100);
          mp = (5 * doy + 2) div 153;
          dd = doy - (153 * mp + 2) div 5 + 1;
          mm = (if mp < 10 then mp + 3 else mp - 9);
          yy = yoe + era * 400 + (if mm \<le> 2 then 1 else 0)
      in (yy, mm, dd))"

definition jsDateFormat :: "date \<Rightarrow> string" where
  "jsDateFormat d =
     (case civil d of
        (yy, mm, dd) \<Rightarrow>
          padZero 4 (showNat (nat yy)) @ ''-'' @ padZero 2 (showNat (nat mm)) @ ''-''
            @ padZero 2 (showNat (nat dd)))"

definition jsToFixed1 :: "rat \<Rightarrow> string" where
  "jsToFixed1 x =
     (let n = nat \<lfloor>10 * \<bar>x\<bar> + 1 / 2\<rfloor>
      in (if x < 0 then ''-'' else []) @ showNat (n div 10) @ ''.'' @ [digitChar (n mod 10)])"

fun fractionDigits :: "nat \<Rightarrow> rat \<Rightarrow> string" where
  "fractionDigits 0 r = []"
| "fractionDigits (Suc k) r =
     (if r = 0 then []
      else digitChar (nat \<lfloor>10 * r\<rfloor>) # fractionDigits k (10 * r - of_int \<lfloor>10 * r\<rfloor>))"

definition jsToStr :: "rat option \<Rightarrow> string" where
  "jsToStr x =
     (case x of
        None \<Rightarrow> ''undefined''
      | Some v \<Rightarrow>
          (let a = \<bar>v\<bar>; whole = \<lfloor>a\<rfloor>; r = a - of_int whole
           in (if v < 0 then ''-'' else []) @ showNat (nat whole)
                @ (if r = 0 then [] else ''.'' @ fractionDigits 17 r)))"

definition digitValue :: "char \<Rightarrow> nat" where
  "digitValue c = of_char c - 48"

definition natOfDigits :: "string \<Rightarrow> nat" where
  "natOfDigits ds = foldl (\<lambda>acc c. 10 * acc + digitValue c) 0 ds"

definition jsToNumber :: "string \<Rightarrow> rat" where
  "jsToNumber s =
     (let neg = (take 1 s = ''-'');
          body = (if neg then drop 1 s else s);
          whole = takeWhile (\<lambda>c. c \<noteq> CHR ''.'') body;
          frac = drop 1 (dropWhile (\<lambda>c. c \<noteq> CHR ''.'') body);
          v = of_nat (natOfDigits whole) + of_nat (natOfDigits frac) / 10 ^ length frac
      in if neg then - v else v)"

definition jsToUpperCase :: "string \<Rightarrow> string" where
  "jsToUpperCase s =
     map (\<lambda>c. if 97 \<le> (of_char c :: nat) \<and> (of_char c :: nat) \<le> 122
               then char_of (of_char c - 32 :: nat) else c) s"

definition jsRuntime :: Runtime where
  "jsRuntime =
     \<lparr>dateFormat = jsDateFormat, toFixed1 = jsToFixed1, toStr = jsToStr,
      toNumber = jsToNumber, parseFloat = jsToNumber, toUpperCase = jsToUpperCase\<rparr>"

section \<open>Initial state and sample inputs\<close>

text \<open>The state after the first render: the \<open>useState\<close> initial values, nothing logged.\<close>

definition initialState :: "date \<Rightarrow> State" where
  "initialState today =
     \<lparr>records = [],
      selectedRecord = None,
      locationQuery = [],
      locationSuggestions = [],
      isLoadingWeather = False,
      selectedRange = 7,
      isCustomRange = False,
      formData =
        \<lparr>rec_id = None,
         location = Some \<lparr>name = [], coordinates = \<lparr>lat = 0, lon = 0\<rparr>\<rparr>,
         dateRange = Some \<lparr>startDate = subDays today 7, endDate = today\<rparr>,
         temperatures = None,
         createdAt = None\<rparr>,
      toasts = [],
      requests = [],
      downloads = []\<rparr>"

text \<open>
  A provider answer with one entry per day of \<open>ds\<close>, and a network whose providers answer
  every request with one entry per day of the requested range (none for an inverted
  range) and whose record store is down.
\<close>

definition dailyFor :: "date list \<Rightarrow> Daily" where
  "dailyFor ds =
     \<lparr>time = ds,
      temperature_2m_max = map (\<lambda>d. Some 30) ds,
      temperature_2m_min = map (\<lambda>d. Some 24) ds,
      temperature_2m_mean = map (\<lambda>d. Some 27) ds,
      relative_humidity_2m_mean = map (\<lambda>d. Some 80) ds,
      wind_speed_10m_mean = map (\<lambda>d. Some 0) ds\<rparr>"

definition steadyNet :: Network where
  "steadyNet req =
     (case req of
        ArchiveGet la lo a b \<Rightarrow> WeatherData (dailyFor [a .. b])
      | ForecastGet la lo a b \<Rightarrow> WeatherData (dailyFor [a .. b])
      | _ \<Rightarrow> Failed)"

text \<open>A network whose forecast provider is down.\<close>

definition archiveOnlyNet :: Network where
  "archiveOnlyNet req =
     (case req of
        ArchiveGet la lo a b \<Rightarrow> WeatherData (dailyFor [a .. b])
      | _ \<Rightarrow> Failed)"

text \<open>A response is a failure of the fetch unless it carries weather data.\<close>

definition isFailure :: "Response \<Rightarrow> bool" where
  "isFailure resp = (case resp of WeatherData daily \<Rightarrow> False | _ \<Rightarrow> True)"

text \<open>
  The state once the default range (the last seven days) has been loaded from
  \<open>steadyNet\<close> for the initial location.
\<close>

definition loadedState :: "date \<Rightarrow> State" where
  "loadedState today =
     fetchHistoricalWeather jsRuntime steadyNet today 0 0 (subDays today 6) today
       (initialState today)"

text \<open>A network whose providers answer with the days of the requested range in reverse.\<close>

definition reversingNet :: Network where
  "reversingNet req =
     (case req of
        ArchiveGet la lo a b \<Rightarrow> WeatherData (dailyFor (rev [a .. b]))
      | ForecastGet la lo a b \<Rightarrow> WeatherData (dailyFor (rev [a .. b]))
      | _ \<Rightarrow> Failed)"

text \<open>
  A run in which answers overtake each other.  Today is day 100.  The user clicks
  "Last 7 days" (call 0, for days 94 to 100) and then "Last 14 days" (call 1, for days 87
  to 100); both answers of call 1 arrive, then both answers of call 0.
\<close>

definition startSystem :: "date \<Rightarrow> System" where
  "startSystem today = \<lparr>ui = initialState today, inflight = []\<rparr>"

definition staleEvents :: "Event list" where
  "staleEvents =
     [RangeButton 7,
      RangeButton 14,
      Answer 1 (steadyNet (ArchiveGet 0 0 87 96)),
      Answer 1 (steadyNet (ForecastGet 0 0 97 100)),
      Answer 0 (steadyNet (ArchiveGet 0 0 94 96)),
      Answer 0 (steadyNet (ForecastGet 0 0 97 100))]"

text \<open>
  A stored record: two observations, one with a description that needs escaping and a
  wind speed of 0, one without humidity.
\<close>

definition quotedRemark :: string where
  \<open>quotedRemark = ''He said "hi", then left''\<close>

definition sampleRecord :: WeatherRecord where
  "sampleRecord =
     \<lparr>WeatherRecord.rec_id = Some ''r1'',
      WeatherRecord.location =
        \<lparr>name = ''Manila, Philippines'', coordinates = \<lparr>lat = 29 / 2, lon = 121\<rparr>\<rparr>,
      WeatherRecord.dateRange = \<lparr>startDate = 19723, endDate = 19724\<rparr>,
      WeatherRecord.temperatures =
        [\<lparr>date = 19723, temperature = Some (1373 / 50), description = quotedRemark,
          humidity = Some 80, windSpeed = Some 0\<rparr>,
         \<lparr>date = 19724, temperature = Some 0, description = ''clear'',
          humidity = None, windSpeed = Some (31 / 10)\<rparr>],
      WeatherRecord.createdAt = 19732\<rparr>"

section \<open>Properties of validation\<close>

lemma validate_cases:
  "validate today s e =
     (if today < s \<or> today < e then Inl FutureDate
      else if 30 < e - s then Inl RangeTooLong
      else if e < s then Inl InvertedRange
      else Inr \<lparr>startDate = s, endDate = e\<rparr>)"
  by (simp add: validate_def isAfter_def isBefore_def differenceInDays_def)


text \<open>
  C6.  Validation applies its rules in the order FutureDate (start or end after today),
  RangeTooLong (end minus start above 30 days), InvertedRange (end before start), and
  reports the first that fails; a candidate that passes all three is accepted as it is.
  With today on or after 2024-01-10 (day 19732), the candidate 2024-01-10 to 2024-01-01
  fails InvertedRange; the candidate tomorrow to tomorrow fails FutureDate.
\<close>

theorem validate_first_failure_wins:
  "(validate today s e = Inl FutureDate \<longleftrightarrow> (today < s \<or> today < e))
   \<and> (validate today s e = Inl RangeTooLong \<longleftrightarrow>
        (\<not> (today < s \<or> today < e) \<and> 30 < differenceInDays e s))
   \<and> (validate today s e = Inl InvertedRange \<longleftrightarrow>
        (\<not> (today < s \<or> today < e) \<and> \<not> 30 < differenceInDays e s \<and> e < s))
   \<and> (validate today s e = Inr \<lparr>startDate = s, endDate = e\<rparr> \<longleftrightarrow>
        (\<not> (today < s \<or> today < e) \<and> \<not> 30 < differenceInDays e s \<and> \<not> e < s))
   \<and> jsDateFormat 19732 = ''2024-01-10'' \<and> jsDateFormat 19723 = ''2024-01-01''
   \<and> validate (19732 + int k) 19732 19723 = Inl InvertedRange
   \<and> validate today (today + 1) (today + 1) = Inl FutureDate"
proof -
  have d1: "jsDateFormat 19732 = ''2024-01-10''" by code_simp
  have d2: "jsDateFormat 19723 = ''2024-01-01''" by code_simp
  show ?thesis
    unfolding validate_cases differenceInDays_def using d1 d2 by simp
qed

section \<open>Properties of the split\<close>

lemma archiveEndDate_min: "archiveEndDate today e = min e (cutoffDate today)"
  by (simp add: archiveEndDate_def isBefore_def min_def)

lemma cutoffDate_eq: "cutoffDate today = today - 4"
  by (simp add: cutoffDate_def subDays_def)

lemma forecastPart_eq:
  "forecastPart today e = (if cutoffDate today < e then Some (cutoffDate today + 1, e) else None)"
  by (simp add: forecastPart_def needsRecentData_def isAfter_def addDays_def)

lemma validate_Inr_bounds:
  assumes "validate today s e = Inr r"
  shows "s \<le> e" and "e \<le> today" and "e - s \<le> 30" and "r = \<lparr>startDate = s, endDate = e\<rparr>"
  using assms by (simp_all add: validate_cases split: if_splits)

text \<open>
  C1 (as amended).  For every validated range that starts no later than the day after the
  cutoff (cutoff = today - 4 days), the archive part is [start, min(end, cutoff)], the
  forecast part is [cutoff + 1, end] and is present exactly when the range ends after the
  cutoff, and the two parts, as sets of calendar days, are disjoint and together are
  exactly the days of the range.
\<close>

theorem split_covers_range:
  assumes "validate today s e = Inr r" and "s \<le> cutoffDate today + 1"
  shows "archivePart today s e = (s, min e (cutoffDate today))
    \<and> forecastPart today e =
        (if cutoffDate today < e then Some (cutoffDate today + 1, e) else None)
    \<and> cutoffDate today = today - 4
    \<and> daysOf (archivePart today s e) \<union> daysOfOption (forecastPart today e) = {s .. e}
    \<and> daysOf (archivePart today s e) \<inter> daysOfOption (forecastPart today e) = {}"
proof -
  from assms(1) have se: "s \<le> e"
    by (rule validate_Inr_bounds)
  have a: "archivePart today s e = (s, min e (cutoffDate today))"
    by (simp add: archivePart_def archiveEndDate_min)
  note f = forecastPart_eq [of today e]
  have u: "daysOf (archivePart today s e) \<union> daysOfOption (forecastPart today e) = {s .. e}"
    using se assms(2) unfolding a f by (auto simp: daysOf_def daysOfOption_def)
  have i: "daysOf (archivePart today s e) \<inter> daysOfOption (forecastPart today e) = {}"
    unfolding a f by (auto simp: daysOf_def daysOfOption_def)
  from a f cutoffDate_eq u i show ?thesis by blast
qed

theorem split_covers_range_witness:
  "validate 19730 19723 19730 = Inr \<lparr>startDate = 19723, endDate = 19730\<rparr>
   \<and> (19723 :: int) \<le> cutoffDate 19730 + 1
   \<and> archivePart 19730 19723 19730 = (19723, 19726)
   \<and> forecastPart 19730 19730 = Some (19727, 19730)
   \<and> daysOf (archivePart 19730 19723 19730) \<union> daysOfOption (forecastPart 19730 19730)
       = {19723 .. 19730}
   \<and> daysOf (archivePart 19730 19723 19730) \<inter> daysOfOption (forecastPart 19730 19730) = {}"
proof -
  have v: "validate 19730 19723 19730 = Inr \<lparr>startDate = 19723, endDate = 19730\<rparr>"
    by (simp add: validate_cases)
  have c: "(19723 :: int) \<le> cutoffDate 19730 + 1"
    by (simp add: cutoffDate_eq)
  note t = split_covers_range [OF v c]
  from t have a: "archivePart 19730 19723 19730 = (19723, 19726)"
    by (simp add: cutoffDate_eq)
  from t have f: "forecastPart 19730 19730 = Some (19727, 19730)"
    by (simp add: cutoffDate_eq)
  from t have u: "daysOf (archivePart 19730 19723 19730)
      \<union> daysOfOption (forecastPart 19730 19730) = {19723 .. 19730}"
    by blast
  from t have i: "daysOf (archivePart 19730 19723 19730)
      \<inter> daysOfOption (forecastPart 19730 19730) = {}"
    by blast
  from v c a f u i show ?thesis by blast
qed

text \<open>
  The claim without the bound on the start fails: today is day 100, the cutoff day 96, and
  the validated range 98 to 100 lies after the cutoff.  The archive part is the inverted
  pair (98, 96), the forecast part is 97 to 100, and day 97 is requested though it is not
  in the range.
\<close>

theorem split_union_counterexample:
  "validate 100 98 100 = Inr \<lparr>startDate = 98, endDate = 100\<rparr>
   \<and> archivePart 100 98 100 = (98, 96)
   \<and> forecastPart 100 100 = Some (97, 100)
   \<and> 97 \<in> daysOf (archivePart 100 98 100) \<union> daysOfOption (forecastPart 100 100)
   \<and> 97 \<notin> {98 .. 100 :: int}
   \<and> daysOf (archivePart 100 98 100) \<union> daysOfOption (forecastPart 100 100) \<noteq> {98 .. 100}"
proof -
  have a: "archivePart 100 98 100 = (98, 96)"
    by (simp add: archivePart_def archiveEndDate_min cutoffDate_eq)
  have f: "forecastPart 100 100 = Some (97, 100)"
    by (simp add: forecastPart_eq cutoffDate_eq)
  have m: "97 \<in> daysOf (archivePart 100 98 100) \<union> daysOfOption (forecastPart 100 100)"
    unfolding a f by (simp add: daysOf_def daysOfOption_def)
  have n: "97 \<notin> {98 .. 100 :: int}" by simp
  from m n have "daysOf (archivePart 100 98 100) \<union> daysOfOption (forecastPart 100 100)
      \<noteq> {98 .. 100}" by metis
  with a f m n show ?thesis by (simp add: validate_cases)
qed


section \<open>Properties of fetchHistoricalWeather\<close>

lemma fetch_begin_requests:
  "requests (fst (fetch_begin today la lo s e st))
     = requests st @ [ArchiveGet la lo s (min e (cutoffDate today))]"
  by (simp add: fetch_begin_def archivePart_def archiveEndDate_min Let_def)

lemma formData_fetch_failed [simp]: "formData (fetch_failed s) = formData s"
  by (simp add: fetch_failed_def)

lemma requests_fetch_failed [simp]: "requests (fetch_failed s) = requests s"
  by (simp add: fetch_failed_def)

lemma on_archive_failure:
  "isFailure resp \<Longrightarrow> on_archive_response rt la lo today e resp s = Finished (fetch_failed s)"
  by (cases resp) (simp_all add: on_archive_response_def isFailure_def)

lemma on_forecast_failure:
  "isFailure resp \<Longrightarrow> on_forecast_response rt temps resp s = fetch_failed s"
  by (cases resp) (simp_all add: on_forecast_response_def isFailure_def)

lemma on_archive_data:
  "on_archive_response rt la lo today e (WeatherData d) s =
     (if needsRecentData today e
      then Waiting
             (s\<lparr>requests := requests s @ [ForecastGet la lo (addDays (cutoffDate today) 1) e]\<rparr>)
             (ForecastGet la lo (addDays (cutoffDate today) 1) e) (observationsOf rt d)
      else Finished (fetch_succeeded (observationsOf rt d) s))"
  by (simp add: on_archive_response_def forecastPart_def Let_def)

lemma fetchHistoricalWeather_unfold:
  "fetchHistoricalWeather rt net today la lo s e st =
     (case on_archive_response rt la lo today e (net (ArchiveGet la lo s (archiveEndDate today e)))
             (st\<lparr>isLoadingWeather := True,
                 requests := requests st @ [ArchiveGet la lo s (archiveEndDate today e)]\<rparr>) of
        Finished s' \<Rightarrow> s'
      | Waiting s' req' temps \<Rightarrow> on_forecast_response rt temps (net req') s')"
  by (simp add: fetchHistoricalWeather_def fetch_begin_def fetch_await_def archivePart_def Let_def)

text \<open>
  C2.  The archive provider is to be queried only when the range starts on or before the
  cutoff.  The code sends the archive request first and unconditionally, ending at
  min(end, cutoff), whatever the start.  Today being day 100 (cutoff 96), the validated
  range 98 to 100 lies after the cutoff; setting the start input to day 98 while the
  draft's range is 93 to 100 sends the archive request for the inverted range 98 to 96,
  then the forecast request for 97 to 100.
\<close>

theorem archive_requested_unconditionally:
  "requests (fst (fetch_begin today la lo s e st))
     = requests st @ [ArchiveGet la lo s (min e (today - 4))]
   \<and> validate 100 98 100 = Inr \<lparr>startDate = 98, endDate = 100\<rparr>
   \<and> cutoffDate 100 < 98
   \<and> requests (fst (fetch_begin 100 la lo 98 100 st)) = requests st @ [ArchiveGet la lo 98 96]
   \<and> dateRange (formData (initialState 100)) = Some \<lparr>startDate = 93, endDate = 100\<rparr>
   \<and> requests (handleDateChange jsRuntime steadyNet 100 ChangeStart (Some 98) None
        (initialState 100)) = [ArchiveGet 0 0 98 96, ForecastGet 0 0 97 100]"
proof -
  have r: "requests (handleDateChange jsRuntime steadyNet 100 ChangeStart (Some 98) None
        (initialState 100)) = [ArchiveGet 0 0 98 96, ForecastGet 0 0 97 100]"
    by code_simp
  have d: "dateRange (formData (initialState 100)) = Some \<lparr>startDate = 93, endDate = 100\<rparr>"
    by (simp add: initialState_def subDays_def)
  show ?thesis
    using r d by (simp add: fetch_begin_requests cutoffDate_eq validate_cases)
qed

text \<open>
  C8.  When the archive request fails, or the archive request succeeds, recent data is
  needed and the forecast request fails, nothing of the request reaches the draft: the
  draft, and with it the observation sequence shown before, is as it was, a failure
  toast is shown and the loading flag is cleared.
\<close>

theorem failed_fetch_discards_everything:
  assumes "isFailure (net (ArchiveGet la lo s (archiveEndDate today e)))
     \<or> (needsRecentData today e
         \<and> isFailure (net (ForecastGet la lo (addDays (cutoffDate today) 1) e)))"
  shows "formData (fetchHistoricalWeather rt net today la lo s e st) = formData st
    \<and> toasts (fetchHistoricalWeather rt net today la lo s e st)
        = toasts st @ [Toast ''Error'' ''Failed to fetch weather data'' True]
    \<and> \<not> isLoadingWeather (fetchHistoricalWeather rt net today la lo s e st)"
proof (cases "isFailure (net (ArchiveGet la lo s (archiveEndDate today e)))")
  case True
  then show ?thesis
    by (simp add: fetchHistoricalWeather_unfold on_archive_failure fetch_failed_def)
next
  case False
  with assms have n: "needsRecentData today e"
    and f: "isFailure (net (ForecastGet la lo (addDays (cutoffDate today) 1) e))"
    by auto
  from False obtain d where d: "net (ArchiveGet la lo s (archiveEndDate today e)) = WeatherData d"
    by (cases "net (ArchiveGet la lo s (archiveEndDate today e))") (simp_all add: isFailure_def)
  show ?thesis
    using d f n
    by (simp add: fetchHistoricalWeather_unfold on_archive_data on_forecast_failure
        fetch_failed_def)
qed

text \<open>
  An instance: the seven days 94 to 100 are on display, the forecast provider is down, and
  the range 80 to 100 is fetched.  The archive answers for 80 to 96, the forecast request
  fails, and the draft still holds the days 94 to 100.
\<close>

theorem failed_fetch_witness:
  "isFailure (archiveOnlyNet (ForecastGet 0 0 (addDays (cutoffDate 100) 1) 100))
   \<and> needsRecentData 100 100
   \<and> formData (fetchHistoricalWeather jsRuntime archiveOnlyNet 100 0 0 80 100 (loadedState 100))
       = formData (loadedState 100)
   \<and> map_option (map date) (temperatures (formData
        (fetchHistoricalWeather jsRuntime archiveOnlyNet 100 0 0 80 100 (loadedState 100))))
       = Some [94, 95, 96, 97, 98, 99, 100]
   \<and> toasts (fetchHistoricalWeather jsRuntime archiveOnlyNet 100 0 0 80 100 (loadedState 100))
       = [Toast ''Error'' ''Failed to fetch weather data'' True]"
proof -
  have f: "isFailure (archiveOnlyNet (ForecastGet 0 0 (addDays (cutoffDate 100) 1) 100))"
    by (simp add: archiveOnlyNet_def isFailure_def)
  have n: "needsRecentData 100 100"
    by (simp add: needsRecentData_def isAfter_def cutoffDate_eq)
  have t: "toasts (loadedState 100) = []" by code_simp
  have d: "map_option (map date) (temperatures (formData (loadedState 100)))
      = Some [94, 95, 96, 97, 98, 99, 100]" by code_simp
  from f n have "isFailure (archiveOnlyNet (ArchiveGet 0 0 80 (archiveEndDate 100 100)))
     \<or> (needsRecentData 100 100
         \<and> isFailure (archiveOnlyNet (ForecastGet 0 0 (addDays (cutoffDate 100) 1) 100)))"
    by blast
  from failed_fetch_discards_everything [OF this, of jsRuntime "loadedState 100"] f n t d
  show ?thesis by simp
qed

section \<open>Properties of handleDateChange and saveRecord\<close>

text \<open>
  C10.  When the candidate range of a date change fails validation, the handler returns
  at the guard: the state is the old one with the guard's toast appended, so the draft
  (its accepted range and its loaded observations) is unchanged, no request is sent and
  no fetch is started.
\<close>

theorem rejected_change_leaves_draft:
  assumes "newStartDate type a (formData s) = Some x"
    and "newEndDate type b (formData s) = Some y"
    and "validate today x y = Inl err"
  shows "handleDateChange rt net today type a b s
      = s\<lparr>toasts := toasts s @ [validationToast err]\<rparr>
    \<and> formData (handleDateChange rt net today type a b s) = formData s
    \<and> requests (handleDateChange rt net today type a b s) = requests s
    \<and> snd (handleDateChange_begin today type a b s) = None"
  using assms by (simp add: handleDateChange_def handleDateChange_begin_def)

theorem rejected_change_witness:
  "newStartDate ChangeBoth (Some 101) (formData (loadedState 100)) = Some 101
   \<and> newEndDate ChangeBoth (Some 101) (formData (loadedState 100)) = Some 101
   \<and> validate 100 101 101 = Inl FutureDate
   \<and> handleDateChange jsRuntime steadyNet 100 ChangeBoth (Some 101) (Some 101) (loadedState 100)
       = (loadedState 100)\<lparr>toasts := toasts (loadedState 100)
            @ [Toast ''Invalid Date'' ''Cannot select future dates'' True]\<rparr>
   \<and> formData (handleDateChange jsRuntime steadyNet 100 ChangeBoth (Some 101) (Some 101)
        (loadedState 100)) = formData (loadedState 100)
   \<and> requests (handleDateChange jsRuntime steadyNet 100 ChangeBoth (Some 101) (Some 101)
        (loadedState 100)) = requests (loadedState 100)"
proof -
  have a: "newStartDate ChangeBoth (Some 101) (formData (loadedState 100)) = Some 101"
    by (simp add: newStartDate_def)
  have b: "newEndDate ChangeBoth (Some 101) (formData (loadedState 100)) = Some 101"
    by (simp add: newEndDate_def)
  have v: "validate 100 101 101 = Inl FutureDate"
    by (simp add: validate_cases)
  from rejected_change_leaves_draft [OF a b v, of jsRuntime steadyNet] a b v
  show ?thesis by (simp add: validationToast_def)
qed

text \<open>
  C9.  A save attempted while the draft has no observations (none loaded, or an empty
  sequence) or no location name is rejected at the guard of \<open>saveRecord\<close>: an error toast
  is shown, no request is sent, and the record list and the draft are unchanged.
\<close>

theorem incomplete_save_rejected:
  assumes "temperatures (formData s) = None \<or> temperatures (formData s) = Some []
     \<or> location (formData s) = None \<or> map_option name (location (formData s)) = Some []"
  shows "saveRecord net now s =
      s\<lparr>toasts := toasts s @
          [Toast ''Error''
             ''Please select a valid location and ensure weather data is loaded'' True]\<rparr>
    \<and> requests (saveRecord net now s) = requests s
    \<and> records (saveRecord net now s) = records s
    \<and> formData (saveRecord net now s) = formData s"
proof -
  from assms have "incomplete (formData s)"
    by (auto simp: incomplete_def split: option.splits)
  then show ?thesis by (simp add: saveRecord_def)
qed

theorem incomplete_save_witness:
  "temperatures (formData (initialState 100)) = None
   \<and> saveRecord steadyNet 100 (initialState 100) =
       (initialState 100)\<lparr>toasts :=
          [Toast ''Error''
             ''Please select a valid location and ensure weather data is loaded'' True]\<rparr>
   \<and> requests (saveRecord steadyNet 100 (initialState 100)) = []
   \<and> records (saveRecord steadyNet 100 (initialState 100)) = []"
proof -
  have t: "temperatures (formData (initialState 100)) = None"
    by (simp add: initialState_def)
  then have "temperatures (formData (initialState 100)) = None
     \<or> temperatures (formData (initialState 100)) = Some []
     \<or> location (formData (initialState 100)) = None
     \<or> map_option name (location (formData (initialState 100))) = Some []" by blast
  from incomplete_save_rejected [OF this, of steadyNet 100] t
  show ?thesis by (simp add: initialState_def)
qed


section \<open>Properties of the merge\<close>

lemma map_date_observationsOf: "map date (observationsOf rt d) = time d"
proof -
  have "map date (observationsOf rt d) = map ((!) (time d)) [0 ..< length (time d)]"
    by (simp add: observationsOf_def observationAt_def)
  then show ?thesis by (simp only: map_nth)
qed

lemma sorted_with_days:
  assumes "mset (map date obs) = mset [s .. e]"
  shows "map date (sort_key date obs) = [s .. e]"
proof -
  have "mset (map date (sort_key date obs)) = mset [s .. e]"
    using assms by simp
  moreover have "sorted (map date (sort_key date obs))"
    by (rule sorted_sort_key)
  ultimately have "sort [s .. e] = map date (sort_key date obs)"
    by (rule properties_for_sort)
  then show ?thesis by (simp add: sorted_sort_id)
qed

lemma days_strictly_increasing:
  assumes "map date obs = [s .. e]" and "Suc i < length obs"
  shows "date (obs ! i) < date (obs ! Suc i)"
proof -
  have l: "length [s .. e] = length obs" using assms(1) by (metis length_map)
  have "sorted_wrt (<) [s .. e]" by (simp add: strict_sorted_iff)
  then have "[s .. e] ! i < [s .. e] ! Suc i"
    using assms(2) l by (simp add: sorted_wrt_nth_less)
  then show ?thesis
    using assms by (metis Suc_lessD nth_map)
qed

lemma fetch_succeeded_temperatures:
  "temperatures (formData (fetch_succeeded temps s)) = Some (sort_key date temps)"
  by (simp add: fetch_succeeded_def)

text \<open>
  C5 (as amended).  For every validated range that starts no later than the day after the
  cutoff, when each provider answers with exactly one observation per calendar day of the
  sub-range it was asked for (in any order), the stored series is the concatenation of
  the two answers sorted by date; it has as many observations as the range has days, its
  dates increase strictly from one observation to the next, and they are exactly the days
  of the range in order.
\<close>

theorem merged_series_complete:
  assumes v: "validate today s e = Inr r"
    and b: "s \<le> cutoffDate today + 1"
    and a: "net (ArchiveGet la lo s (archiveEndDate today e)) = WeatherData da"
    and ad: "mset (time da) = mset [s .. archiveEndDate today e]"
    and f: "needsRecentData today e \<Longrightarrow>
       net (ForecastGet la lo (addDays (cutoffDate today) 1) e) = WeatherData df
       \<and> mset (time df) = mset [addDays (cutoffDate today) 1 .. e]"
  shows "\<exists>obs. temperatures (formData (fetchHistoricalWeather rt net today la lo s e st)) = Some obs
    \<and> obs = sort_key date (observationsOf rt da
              @ (if needsRecentData today e then observationsOf rt df else []))
    \<and> length obs = nat (e - s + 1)
    \<and> (\<forall>i. Suc i < length obs \<longrightarrow> date (obs ! i) < date (obs ! Suc i))
    \<and> map date obs = [s .. e]"
proof -
  define temps where "temps = observationsOf rt da
              @ (if needsRecentData today e then observationsOf rt df else [])"
  from v have se: "s \<le> e" by (rule validate_Inr_bounds)
  have t: "temperatures (formData (fetchHistoricalWeather rt net today la lo s e st))
      = Some (sort_key date temps)"
    using a f
    by (simp add: fetchHistoricalWeather_unfold on_archive_data on_forecast_response_def
        fetch_succeeded_temperatures temps_def)
  have m: "mset (map date temps) = mset [s .. e]"
  proof (cases "needsRecentData today e")
    case True
    then have c: "cutoffDate today < e"
      by (simp add: needsRecentData_def isAfter_def)
    have "[s .. e] = [s .. cutoffDate today] @ [cutoffDate today + 1 .. e]"
      using b c upto_split1 [of s "cutoffDate today + 1" e] by simp
    then show ?thesis
      using True f ad c
      by (simp add: temps_def map_date_observationsOf archiveEndDate_min addDays_def min_def)
  next
    case False
    then have "e \<le> cutoffDate today"
      by (simp add: needsRecentData_def isAfter_def)
    then show ?thesis
      using False ad
      by (simp add: temps_def map_date_observationsOf archiveEndDate_min min_def)
  qed
  then have d: "map date (sort_key date temps) = [s .. e]"
    by (rule sorted_with_days)
  have l: "length (sort_key date temps) = nat (e - s + 1)"
    using d by (metis length_map length_upto)
  have i: "\<forall>i. Suc i < length (sort_key date temps)
      \<longrightarrow> date (sort_key date temps ! i) < date (sort_key date temps ! Suc i)"
    using d days_strictly_increasing by blast
  from t d l i show ?thesis unfolding temps_def by blast
qed


text \<open>
  An instance with providers that answer in reverse order: today is 2024-01-10 (day
  19732), the range is 2024-01-01 to 2024-01-10, the archive answers for six days and
  the forecast for four.
\<close>

theorem merged_series_witness:
  "validate 19732 19723 19732 = Inr \<lparr>startDate = 19723, endDate = 19732\<rparr>
   \<and> 19723 \<le> cutoffDate 19732 + 1
   \<and> reversingNet (ArchiveGet 0 0 19723 (archiveEndDate 19732 19732))
       = WeatherData (dailyFor [19728, 19727, 19726, 19725, 19724, 19723])
   \<and> reversingNet (ForecastGet 0 0 (addDays (cutoffDate 19732) 1) 19732)
       = WeatherData (dailyFor [19732, 19731, 19730, 19729])
   \<and> map_option (map date) (temperatures (formData
        (fetchHistoricalWeather jsRuntime reversingNet 19732 0 0 19723 19732 (initialState 19732))))
       = Some [19723, 19724, 19725, 19726, 19727, 19728, 19729, 19730, 19731, 19732]
   \<and> map_option length (temperatures (formData
        (fetchHistoricalWeather jsRuntime reversingNet 19732 0 0 19723 19732 (initialState 19732))))
       = Some 10"
proof -
  have v: "validate 19732 19723 19732 = Inr \<lparr>startDate = 19723, endDate = 19732\<rparr>"
    by (simp add: validate_cases)
  have b: "19723 \<le> cutoffDate 19732 + 1"
    by (simp add: cutoffDate_eq)
  have a: "reversingNet (ArchiveGet 0 0 19723 (archiveEndDate 19732 19732))
       = WeatherData (dailyFor [19728, 19727, 19726, 19725, 19724, 19723])"
    by code_simp
  have ad: "mset (time (dailyFor [19728, 19727, 19726, 19725, 19724, 19723]))
       = mset [19723 .. archiveEndDate 19732 19732]"
    by code_simp
  have f: "reversingNet (ForecastGet 0 0 (addDays (cutoffDate 19732) 1) 19732)
       = WeatherData (dailyFor [19732, 19731, 19730, 19729])"
    by code_simp
  have fd: "mset (time (dailyFor [19732, 19731, 19730, 19729]))
       = mset [addDays (cutoffDate 19732) 1 .. 19732]"
    by code_simp
  have u: "[19723 .. 19732 :: int]
      = [19723, 19724, 19725, 19726, 19727, 19728, 19729, 19730, 19731, 19732]"
    by code_simp
  from merged_series_complete [where net = reversingNet and rt = jsRuntime
      and st = "initialState 19732" and df = "dailyFor [19732, 19731, 19730, 19729]", OF v b a ad]
    f fd
  obtain obs where
    t: "temperatures (formData
        (fetchHistoricalWeather jsRuntime reversingNet 19732 0 0 19723 19732 (initialState 19732)))
        = Some obs"
    and l: "length obs = nat (19732 - 19723 + 1)"
    and d: "map date obs = [19723 .. 19732]"
    by blast
  from v b a f t l d u show ?thesis by simp
qed

text \<open>
  Without the bound on the start the claim fails.  Today is day 100 and the validated
  range is 98 to 100.  The archive is asked for the inverted range 98 to 96 and answers
  with no day, the forecast is asked for 97 to 100 and answers with those four days;
  each answer has one observation per day of its sub-range, and the merged series has
  four observations for a range of three days.
\<close>

theorem merged_length_counterexample:
  "validate 100 98 100 = Inr \<lparr>startDate = 98, endDate = 100\<rparr>
   \<and> steadyNet (ArchiveGet 0 0 98 (archiveEndDate 100 100)) = WeatherData (dailyFor [])
   \<and> mset (time (dailyFor [])) = mset [98 .. archiveEndDate 100 100]
   \<and> steadyNet (ForecastGet 0 0 (addDays (cutoffDate 100) 1) 100)
       = WeatherData (dailyFor [97, 98, 99, 100])
   \<and> mset (time (dailyFor [97, 98, 99, 100])) = mset [addDays (cutoffDate 100) 1 .. 100]
   \<and> map_option (map date) (temperatures (formData
        (fetchHistoricalWeather jsRuntime steadyNet 100 0 0 98 100 (initialState 100))))
       = Some [97, 98, 99, 100]
   \<and> map_option length (temperatures (formData
        (fetchHistoricalWeather jsRuntime steadyNet 100 0 0 98 100 (initialState 100))))
       \<noteq> Some (nat (100 - 98 + 1))"
proof -
  have v: "validate 100 98 100 = Inr \<lparr>startDate = 98, endDate = 100\<rparr>"
    by (simp add: validate_cases)
  have a: "steadyNet (ArchiveGet 0 0 98 (archiveEndDate 100 100)) = WeatherData (dailyFor [])"
    by code_simp
  have ad: "mset (time (dailyFor [])) = mset [98 .. archiveEndDate 100 100]"
    by code_simp
  have f: "steadyNet (ForecastGet 0 0 (addDays (cutoffDate 100) 1) 100)
       = WeatherData (dailyFor [97, 98, 99, 100])"
    by code_simp
  have fd: "mset (time (dailyFor [97, 98, 99, 100])) = mset [addDays (cutoffDate 100) 1 .. 100]"
    by code_simp
  have d: "map_option (map date) (temperatures (formData
        (fetchHistoricalWeather jsRuntime steadyNet 100 0 0 98 100 (initialState 100))))
       = Some [97, 98, 99, 100]"
    by code_simp
  have l: "map_option length (temperatures (formData
        (fetchHistoricalWeather jsRuntime steadyNet 100 0 0 98 100 (initialState 100))))
       = Some 4"
    by code_simp
  have n: "map_option length (temperatures (formData
        (fetchHistoricalWeather jsRuntime steadyNet 100 0 0 98 100 (initialState 100))))
       \<noteq> Some (nat (100 - 98 + 1))"
    unfolding l by simp
  from v a ad f fd d n show ?thesis by blast
qed

section \<open>Properties of calls in flight\<close>

lemma answer_keeps_request:
  "dateRange (formData (ui (answer rt k resp sys))) = dateRange (formData (ui sys))
   \<and> location (formData (ui (answer rt k resp sys))) = location (formData (ui sys))"
  by (cases resp)
    (auto simp: answer_def on_archive_response_def on_forecast_response_def fetch_failed_def
      fetch_succeeded_def Let_def split: option.splits Suspended.splits)

text \<open>
  C7 (as amended).  When the last answer of a call in flight arrives with data (the
  forecast answer, or the archive answer of a call that needs no recent data), its merged
  result replaces the draft's observation sequence, whatever location and range the draft
  holds at that moment: there is no comparison with the most recent request.  The
  draft's location and range are left as they are.
\<close>

theorem answer_applied_unconditionally:
  assumes "k < length (inflight sys)"
  shows "(inflight sys ! k = Some (AwaitingForecast temps) \<longrightarrow>
        temperatures (formData (ui (answer rt k (WeatherData d) sys)))
          = Some (sort_key date (temps @ observationsOf rt d)))
    \<and> (inflight sys ! k = Some (AwaitingArchive la lo t e) \<and> \<not> needsRecentData t e \<longrightarrow>
        temperatures (formData (ui (answer rt k (WeatherData d) sys)))
          = Some (sort_key date (observationsOf rt d)))
    \<and> dateRange (formData (ui (answer rt k (WeatherData d) sys))) = dateRange (formData (ui sys))
    \<and> location (formData (ui (answer rt k (WeatherData d) sys))) = location (formData (ui sys))"
  using assms answer_keeps_request [of rt k "WeatherData d" sys]
  by (simp add: answer_def on_archive_data on_forecast_response_def fetch_succeeded_temperatures)


text \<open>
  The claim as stated fails on the run \<open>staleEvents\<close>: the requests go out for 94 to 100
  and then for 87 to 100, the answers of the first call arrive last, and at the end the
  draft's range is 87 to 100 while the observations on display are those of 94 to 100.
\<close>

theorem stale_answer_counterexample:
  "requests (ui (run jsRuntime 100 (startSystem 100) (take 2 staleEvents)))
     = [ArchiveGet 0 0 94 96, ArchiveGet 0 0 87 96]
   \<and> dateRange (formData (ui (run jsRuntime 100 (startSystem 100) staleEvents)))
       = Some \<lparr>startDate = 87, endDate = 100\<rparr>
   \<and> map_option (map date)
        (temperatures (formData (ui (run jsRuntime 100 (startSystem 100) staleEvents))))
       = Some [94, 95, 96, 97, 98, 99, 100]
   \<and> inflight (run jsRuntime 100 (startSystem 100) staleEvents) = [None, None]"
proof -
  have a: "requests (ui (run jsRuntime 100 (startSystem 100) (take 2 staleEvents)))
     = [ArchiveGet 0 0 94 96, ArchiveGet 0 0 87 96]" by code_simp
  have b: "dateRange (formData (ui (run jsRuntime 100 (startSystem 100) staleEvents)))
       = Some \<lparr>startDate = 87, endDate = 100\<rparr>" by code_simp
  have c: "map_option (map date)
        (temperatures (formData (ui (run jsRuntime 100 (startSystem 100) staleEvents))))
       = Some [94, 95, 96, 97, 98, 99, 100]" by code_simp
  have d: "inflight (run jsRuntime 100 (startSystem 100) staleEvents) = [None, None]" by code_simp
  from a b c d show ?thesis by blast
qed

text \<open>
  An instance: in the same run, just before the last answer, call 0 is waiting for its
  forecast answer while the draft shows the fourteen days of call 1.
\<close>

theorem answer_applied_witness:
  "0 < length (inflight (run jsRuntime 100 (startSystem 100) (take 5 staleEvents)))
   \<and> inflight (run jsRuntime 100 (startSystem 100) (take 5 staleEvents)) ! 0
       = Some (AwaitingForecast (observationsOf jsRuntime (dailyFor [94, 95, 96])))
   \<and> map_option (map date) (temperatures (formData (ui
        (run jsRuntime 100 (startSystem 100) (take 5 staleEvents)))))
       = Some [87, 88, 89, 90, 91, 92, 93, 94, 95, 96, 97, 98, 99, 100]
   \<and> map_option (map date) (temperatures (formData (ui
        (answer jsRuntime 0 (WeatherData (dailyFor [97, 98, 99, 100]))
           (run jsRuntime 100 (startSystem 100) (take 5 staleEvents))))))
       = Some [94, 95, 96, 97, 98, 99, 100]
   \<and> dateRange (formData (ui
        (answer jsRuntime 0 (WeatherData (dailyFor [97, 98, 99, 100]))
           (run jsRuntime 100 (startSystem 100) (take 5 staleEvents)))))
       = Some \<lparr>startDate = 87, endDate = 100\<rparr>"
proof -
  define sys where "sys = run jsRuntime 100 (startSystem 100) (take 5 staleEvents)"
  have k: "0 < length (inflight sys)" unfolding sys_def by code_simp
  have c: "inflight sys ! 0 = Some (AwaitingForecast (observationsOf jsRuntime (dailyFor [94, 95, 96])))"
    unfolding sys_def by code_simp
  have p: "map_option (map date) (temperatures (formData (ui sys)))
       = Some [87, 88, 89, 90, 91, 92, 93, 94, 95, 96, 97, 98, 99, 100]"
    unfolding sys_def by code_simp
  have r: "dateRange (formData (ui sys)) = Some \<lparr>startDate = 87, endDate = 100\<rparr>"
    unfolding sys_def by code_simp
  have m: "map date (sort_key date (observationsOf jsRuntime (dailyFor [94, 95, 96])
              @ observationsOf jsRuntime (dailyFor [97, 98, 99, 100])))
      = [94, 95, 96, 97, 98, 99, 100]" by code_simp
  from answer_applied_unconditionally [OF k, of "observationsOf jsRuntime (dailyFor [94, 95, 96])"
      jsRuntime "dailyFor [97, 98, 99, 100]"] c r m
  have "map_option (map date) (temperatures (formData (ui
        (answer jsRuntime 0 (WeatherData (dailyFor [97, 98, 99, 100])) sys))))
       = Some [94, 95, 96, 97, 98, 99, 100]"
    and "dateRange (formData (ui
        (answer jsRuntime 0 (WeatherData (dailyFor [97, 98, 99, 100])) sys)))
       = Some \<lparr>startDate = 87, endDate = 100\<rparr>"
    by simp_all
  with k c p show ?thesis unfolding sys_def by blast
qed



section \<open>Properties of the CSV export\<close>

lemma escapeCSV_cases:
  "escapeCSV field =
     (if comma \<in> set field \<or> quote \<in> set field \<or> newline \<in> set field
      then [quote] @ doubleQuotes field @ [quote] else field)"
  by (auto simp: escapeCSV_def)

lemma doubleQuotes_others:
  "filter (\<lambda>c. c \<noteq> quote) (doubleQuotes field) = filter (\<lambda>c. c \<noteq> quote) field"
  by (induction field) (simp_all add: doubleQuotes_def)

lemma doubleQuotes_quotes:
  "length (filter (\<lambda>c. c = quote) (doubleQuotes field))
     = 2 * length (filter (\<lambda>c. c = quote) field)"
  by (induction field) (simp_all add: doubleQuotes_def)

lemma allOrNone_Some:
  "allOrNone xs = Some ys \<Longrightarrow> xs = map Some ys"
  by (induction xs arbitrary: ys rule: allOrNone.induct) auto

lemma csvRow_Some:
  assumes "csvRow rt temp = Some row"
  shows "\<exists>v. temperature temp = Some v
    \<and> row = join [comma]
        [escapeCSV (dateFormat rt (date temp)), escapeCSV (toFixed1 rt v),
         escapeCSV (description temp), escapeCSV (fixedOrEmpty rt (humidity temp)),
         escapeCSV (fixedOrEmpty rt (windSpeed temp))]"
  using assms by (auto simp: csvRow_def csvFields_def split: option.splits)

text \<open>
  C3 (as amended).  Every field of every data row of the CSV export (date, temperature,
  description, humidity, wind speed) is passed through \<open>escapeCSV\<close> before the row is
  joined with commas: a field that contains a comma, a double quote or a newline is
  wrapped in double quotes with every double quote in it doubled and nothing else
  changed, and any other field is emitted unchanged; the description
  \<^verbatim>\<open>He said "hi", then left\<close> encodes as \<^verbatim>\<open>"He said ""hi"", then left"\<close>.  The
  metadata lines are emitted as they are composed, without escaping.
\<close>

theorem csv_row_fields_escaped:
  assumes "convertToCSV rt record = Some text"
  shows \<open>\<exists>rows.
      text = join [newline] (csvMetadata rt record @ csvHeaders @ rows)
      \<and> length rows = length (WeatherRecord.temperatures record)
      \<and> (\<forall>i < length rows. \<exists>v.
            temperature (WeatherRecord.temperatures record ! i) = Some v
            \<and> rows ! i = join [comma]
                [escapeCSV (dateFormat rt (date (WeatherRecord.temperatures record ! i))),
                 escapeCSV (toFixed1 rt v),
                 escapeCSV (description (WeatherRecord.temperatures record ! i)),
                 escapeCSV (fixedOrEmpty rt (humidity (WeatherRecord.temperatures record ! i))),
                 escapeCSV (fixedOrEmpty rt (windSpeed (WeatherRecord.temperatures record ! i)))])
      \<and> (\<forall>field. escapeCSV field =
            (if comma \<in> set field \<or> quote \<in> set field \<or> newline \<in> set field
             then [quote] @ doubleQuotes field @ [quote] else field))
      \<and> (\<forall>field. filter (\<lambda>c. c \<noteq> quote) (doubleQuotes field) = filter (\<lambda>c. c \<noteq> quote) field
            \<and> length (filter (\<lambda>c. c = quote) (doubleQuotes field))
                = 2 * length (filter (\<lambda>c. c = quote) field))
      \<and> escapeCSV ''He said "hi", then left'' = ''"He said ""hi"", then left"''
      \<and> hd (csvMetadata rt record) = ''# Location: '' @ name (WeatherRecord.location record)\<close>
proof -
  from assms obtain rows
    where r: "allOrNone (map (csvRow rt) (WeatherRecord.temperatures record)) = Some rows"
      and t: "text = join [newline] (csvMetadata rt record @ csvHeaders @ rows)"
    by (auto simp: convertToCSV_def)
  from r have m: "map (csvRow rt) (WeatherRecord.temperatures record) = map Some rows"
    by (rule allOrNone_Some)
  then have l: "length rows = length (WeatherRecord.temperatures record)"
    by (metis length_map)
  have f: "\<forall>i < length rows. \<exists>v.
            temperature (WeatherRecord.temperatures record ! i) = Some v
            \<and> rows ! i = join [comma]
                [escapeCSV (dateFormat rt (date (WeatherRecord.temperatures record ! i))),
                 escapeCSV (toFixed1 rt v),
                 escapeCSV (description (WeatherRecord.temperatures record ! i)),
                 escapeCSV (fixedOrEmpty rt (humidity (WeatherRecord.temperatures record ! i))),
                 escapeCSV (fixedOrEmpty rt (windSpeed (WeatherRecord.temperatures record ! i)))]"
  proof (intro allI impI)
    fix i assume i: "i < length rows"
    with m l have "csvRow rt (WeatherRecord.temperatures record ! i) = Some (rows ! i)"
      by (metis nth_map)
    then show "\<exists>v. temperature (WeatherRecord.temperatures record ! i) = Some v
            \<and> rows ! i = join [comma]
                [escapeCSV (dateFormat rt (date (WeatherRecord.temperatures record ! i))),
                 escapeCSV (toFixed1 rt v),
                 escapeCSV (description (WeatherRecord.temperatures record ! i)),
                 escapeCSV (fixedOrEmpty rt (humidity (WeatherRecord.temperatures record ! i))),
                 escapeCSV (fixedOrEmpty rt (windSpeed (WeatherRecord.temperatures record ! i)))]"
      by (rule csvRow_Some)
  qed
  have e: \<open>escapeCSV ''He said "hi", then left'' = ''"He said ""hi"", then left"''\<close>
    by code_simp
  have h: "hd (csvMetadata rt record) = ''# Location: '' @ name (WeatherRecord.location record)"
    by (simp add: csvMetadata_def)
  from t l f e h escapeCSV_cases doubleQuotes_others doubleQuotes_quotes
  show ?thesis by blast
qed

text \<open>The export of \<open>sampleRecord\<close>, line by line.\<close>

lemma sample_csv:
  \<open>convertToCSV jsRuntime sampleRecord = Some (join [newline]
       [''# Location: Manila, Philippines'',
        ''# Latitude: 14.5'',
        ''# Longitude: 121'',
        ''# Date Range: 2024-01-01 to 2024-01-02'',
        [],
        hd csvHeaders,
        ''2024-01-01,27.5,"He said ""hi"", then left",80.0,0.0'',
        ''2024-01-02,0.0,clear,,3.1''])\<close>
  by code_simp

theorem csv_row_fields_witness:
  \<open>convertToCSV jsRuntime sampleRecord = Some (join [newline]
       [''# Location: Manila, Philippines'',
        ''# Latitude: 14.5'',
        ''# Longitude: 121'',
        ''# Date Range: 2024-01-01 to 2024-01-02'',
        [],
        hd csvHeaders,
        ''2024-01-01,27.5,"He said ""hi"", then left",80.0,0.0'',
        ''2024-01-02,0.0,clear,,3.1''])
   \<and> (\<exists>rows. length rows = length (WeatherRecord.temperatures sampleRecord)
        \<and> join [newline]
            [''# Location: Manila, Philippines'',
             ''# Latitude: 14.5'',
             ''# Longitude: 121'',
             ''# Date Range: 2024-01-01 to 2024-01-02'',
             [],
             hd csvHeaders,
             ''2024-01-01,27.5,"He said ""hi"", then left",80.0,0.0'',
             ''2024-01-02,0.0,clear,,3.1'']
           = join [newline] (csvMetadata jsRuntime sampleRecord @ csvHeaders @ rows))\<close>
  using csv_row_fields_escaped [OF sample_csv] sample_csv by blast

text \<open>
  The claim fails for the metadata lines: the location name of \<open>sampleRecord\<close> contains a
  comma, and the first line of the export carries it bare, with no double quote in the
  line, where escaping the name or the line would have wrapped it.
\<close>

theorem csv_metadata_counterexample:
  \<open>map_option (takeWhile (\<lambda>c. c \<noteq> newline)) (convertToCSV jsRuntime sampleRecord)
     = Some ''# Location: Manila, Philippines''
   \<and> name (WeatherRecord.location sampleRecord) = ''Manila, Philippines''
   \<and> comma \<in> set ''Manila, Philippines''
   \<and> escapeCSV ''Manila, Philippines'' = ''"Manila, Philippines"''
   \<and> escapeCSV ''# Location: Manila, Philippines'' = ''"# Location: Manila, Philippines"''
   \<and> map_option (\<lambda>text. quote \<in> set (takeWhile (\<lambda>c. c \<noteq> newline) text))
        (convertToCSV jsRuntime sampleRecord) = Some False\<close>
proof -
  have a: \<open>map_option (takeWhile (\<lambda>c. c \<noteq> newline)) (convertToCSV jsRuntime sampleRecord)
     = Some ''# Location: Manila, Philippines''\<close>
    unfolding sample_csv by (simp add: newline_def)
  have b: \<open>name (WeatherRecord.location sampleRecord) = ''Manila, Philippines''\<close>
    by (simp add: sampleRecord_def)
  have c: \<open>comma \<in> set ''Manila, Philippines''\<close> by (simp add: comma_def)
  have d: \<open>escapeCSV ''Manila, Philippines'' = ''"Manila, Philippines"''\<close> by code_simp
  have e: \<open>escapeCSV ''# Location: Manila, Philippines'' = ''"# Location: Manila, Philippines"''\<close>
    by code_simp
  have f: \<open>map_option (\<lambda>text. quote \<in> set (takeWhile (\<lambda>c. c \<noteq> newline) text))
        (convertToCSV jsRuntime sampleRecord) = Some False\<close>
    unfolding sample_csv by (simp add: newline_def quote_def)
  from a b c d e f show ?thesis by blast
qed

section \<open>Properties of the JSON export\<close>

lemma roundedOrNull_zero: "roundedOrNull rt (Some 0) = None"
  by (simp add: roundedOrNull_def truthy_def)

text \<open>
  C4.  A humidity or wind speed that is present is to be kept as its rounded number, the
  value 0 included.  In the JSON document a humidity or wind speed of 0 becomes \<open>null\<close>,
  as a missing one does, while the CSV export of the same value is \<open>0.0\<close> and a
  temperature of 0 stays 0: the first observation of \<open>sampleRecord\<close> has wind speed 0
  and is exported with wind speed \<open>null\<close>.
\<close>

theorem json_zero_becomes_null:
  \<open>roundedOrNull rt (Some 0) = None
   \<and> fixedOrEmpty jsRuntime (Some 0) = ''0.0''
   \<and> map_option x_temperatures (jsonDocument jsRuntime sampleRecord) =
       Some [\<lparr>x_date = ''2024-01-01'', x_temperature = 55 / 2,
               x_description = ''He said "hi", then left'',
               x_humidity = Some 80, x_windSpeed = None\<rparr>,
             \<lparr>x_date = ''2024-01-02'', x_temperature = 0, x_description = ''clear'',
               x_humidity = None, x_windSpeed = Some (31 / 10)\<rparr>]
   \<and> map windSpeed (WeatherRecord.temperatures sampleRecord) = [Some 0, Some (31 / 10)]\<close>
proof -
  have a: "fixedOrEmpty jsRuntime (Some 0) = ''0.0''" by code_simp
  have b: \<open>map_option x_temperatures (jsonDocument jsRuntime sampleRecord) =
       Some [\<lparr>x_date = ''2024-01-01'', x_temperature = 55 / 2,
               x_description = ''He said "hi", then left'',
               x_humidity = Some 80, x_windSpeed = None\<rparr>,
             \<lparr>x_date = ''2024-01-02'', x_temperature = 0, x_description = ''clear'',
               x_humidity = None, x_windSpeed = Some (31 / 10)\<rparr>]\<close> by code_simp
  have c: "map windSpeed (WeatherRecord.temperatures sampleRecord) = [Some 0, Some (31 / 10)]"
    by (simp add: sampleRecord_def)
  from a b c roundedOrNull_zero show ?thesis by blast
qed


end
